theory Spec2Isabelle
  imports Main "HOL-Library.Word" "HOL-Library.AList"
begin

section \<open>OpenCLGA client: workers and their pool\<close>

text \<open>
  The module has three parts: \<^verbatim>\<open>query_devices\<close>, which lists the
  (platform index, device index) pairs in a child process; the class
  \<^verbatim>\<open>OpenCLGAWorker\<close>, a process whose callback \<^verbatim>\<open>process_data\<close>
  dispatches the commands of the server; and the class \<^verbatim>\<open>OpenCLGAClient\<close>,
  the pool of workers, with the polling loop of \<^verbatim>\<open>start_ocl_ga_client\<close>.

  Everything the code does besides updating the fields of \<^verbatim>\<open>self\<close> is recorded as
  a list of events, in the order of the calls: log lines, prints, messages handed to the
  connection, calls of the engine, the start of the run thread. An exception is a value:
  a function that can raise returns the exception beside what it did before raising.
\<close>

subsection \<open>Python values, exceptions, events\<close>

text \<open>
  The values that reach the worker over the wire. A dictionary is the list of its items in
  insertion order (keys unique). \<open>PyFloat\<close> carries the literal of a float, which the
  worker only passes on; \<open>PyObj\<close> is any other object, one with neither items nor
  an iterator.
\<close>

datatype pyval =
    PyNone
  | PyBool bool
  | PyInt int
  | PyFloat string
  | PyStr string
  | PyBytes "8 word list"
  | PyTuple "pyval list"
  | PyList "pyval list"
  | PyDict "(pyval \<times> pyval) list"
  | PyObj string

datatype py_exn =
    UnicodeDecodeError
  | SyntaxError
  | NameError
  | KeyError
  | TypeError
  | ValueError
  | AttributeError
  | IndexError
  | AssertionError
  | UnpicklingError
  | RuntimeError

datatype level = Info | Verbose | Error

text \<open>
  \<open>Log l t args\<close> is \<^verbatim>\<open>self.logger.l(t.format(*args))\<close>: the template of the source
  and the values formatted into it. \<open>ClientSend d\<close> is \<^verbatim>\<open>self.client.send(repr(d))\<close>.
  \<open>GaNew\<close> and \<open>GaCall\<close> are the constructor and the methods of the engine.
\<close>

datatype event =
    Log level string "pyval list"
  | Print pyval
  | PrintExc py_exn
  | ClientSend pyval
  | ClientShutdown
  | NotifyAll
  | GaNew pyval
  | GaCall string "pyval list"
  | ThreadStart pyval
  | ProcessStart nat nat
  | ProcessTerminate nat nat

text \<open>\<^verbatim>\<open>obj[key]\<close> for a string key: only a dictionary has string keys.\<close>

fun getitem :: "pyval \<Rightarrow> string \<Rightarrow> py_exn + pyval" where
  "getitem (PyDict kvs) k =
     (case map_of kvs (PyStr k) of None \<Rightarrow> Inl KeyError | Some v \<Rightarrow> Inr v)"
| "getitem _ k = Inl TypeError"

text \<open>\<^verbatim>\<open>obj[key] = v\<close> for a string key.\<close>

fun setitem :: "pyval \<Rightarrow> string \<Rightarrow> pyval \<Rightarrow> py_exn + pyval" where
  "setitem (PyDict kvs) k v = Inr (PyDict (AList.update (PyStr k) v kvs))"
| "setitem _ k v = Inl TypeError"

text \<open>
  \<^verbatim>\<open>a, b = obj\<close>: the two elements of an iterable of length two; ValueError for another
  length, TypeError for a value that is not iterable. A string yields its characters, bytes
  their integers, a dictionary its keys.
\<close>

fun py_iter :: "pyval \<Rightarrow> py_exn + pyval list" where
  "py_iter (PyTuple xs) = Inr xs"
| "py_iter (PyList xs) = Inr xs"
| "py_iter (PyStr s) = Inr (map (\<lambda>c. PyStr [c]) s)"
| "py_iter (PyBytes bs) = Inr (map (\<lambda>b. PyInt (uint b)) bs)"
| "py_iter (PyDict kvs) = Inr (map fst kvs)"
| "py_iter _ = Inl TypeError"

definition unpack2 :: "pyval \<Rightarrow> py_exn + (pyval \<times> pyval)" where
  "unpack2 v =
     (case py_iter v of
        Inl e \<Rightarrow> Inl e
      | Inr [a, b] \<Rightarrow> Inr (a, b)
      | Inr _ \<Rightarrow> Inl ValueError)"

text \<open>
  \<^verbatim>\<open>str(data, 'ASCII')\<close>: a byte above 127 raises UnicodeDecodeError; otherwise each byte
  is its character.
\<close>

definition str_ascii :: "8 word list \<Rightarrow> py_exn + string" where
  "str_ascii data =
     (if list_all (\<lambda>b. b < 128) data then Inr (map (\<lambda>b. char_of (unat b)) data)
      else Inl UnicodeDecodeError)"

subsection \<open>The worker\<close>

datatype client_handle = Client string nat

datatype condition = Condition

text \<open>
  The fields that \<^verbatim>\<open>__init__\<close> sets, then \<open>device\<close> (the name of the device, set by
  \<^verbatim>\<open>create_context\<close>), \<open>ocl_ga_thread\<close> (the arguments of the thread that the last
  \<^verbatim>\<open>run\<close> command started) and \<open>popen\<close>, the state of the inherited
  \<^verbatim>\<open>multiprocessing.Process\<close>: \<open>None\<close> before \<^verbatim>\<open>start()\<close>, then \<open>Some True\<close>
  while the child process lives and \<open>Some False\<close> once it has ended.
\<close>

record 'e OpenCLGAWorker =
  alive :: bool
  platform_index :: nat
  device_index :: nat
  ip :: string
  port :: nat
  client :: "client_handle option"
  notifier :: "condition option"
  ocl_ga :: "'e option"
  device :: "string option"
  ocl_ga_thread :: "pyval option"
  popen :: "bool option"

text \<open>
  What the module imports and calls but does not define: \<^verbatim>\<open>eval\<close>, \<^verbatim>\<open>repr\<close>,
  \<^verbatim>\<open>pickle.loads\<close> and the engine \<^verbatim>\<open>OpenCLGA\<close> of \<^verbatim>\<open>ocl_ga.py\<close>, over
  engine states \<open>'e\<close>. Each may raise. \<open>ga_run g m c\<close> is the list of the
  (index, data) pairs the engine hands to its generation callback, in order, and then how
  the call ends. \<open>py_eval\<close> is the value of the message text: the server sends the
  \<^verbatim>\<open>repr\<close> of a dictionary, a literal, and a text whose evaluation would itself call
  methods of the worker is not an input of the model.
\<close>

record 'e externals =
  py_eval :: "string \<Rightarrow> py_exn + pyval"
  py_repr :: "pyval \<Rightarrow> string"
  pickle_loads :: "pyval \<Rightarrow> py_exn + pyval"
  ga_new :: "pyval \<Rightarrow> py_exn + 'e"
  ga_prepare :: "'e \<Rightarrow> py_exn + 'e"
  ga_pause :: "'e \<Rightarrow> py_exn + 'e"
  ga_stop :: "'e \<Rightarrow> py_exn + 'e"
  ga_restore :: "'e \<Rightarrow> pyval \<Rightarrow> py_exn + 'e"
  ga_save :: "'e \<Rightarrow> pyval \<Rightarrow> py_exn + 'e"
  ga_get_the_best :: "'e \<Rightarrow> py_exn + (pyval \<times> pyval \<times> pyval)"
  ga_get_statistics :: "'e \<Rightarrow> py_exn + pyval"
  ga_run :: "'e \<Rightarrow> pyval \<Rightarrow> pyval \<Rightarrow> (pyval \<times> pyval) list \<times> (py_exn + 'e)"

definition OpenCLGAWorker_init :: "nat \<Rightarrow> nat \<Rightarrow> string \<Rightarrow> nat \<Rightarrow> 'e OpenCLGAWorker" where
  "OpenCLGAWorker_init pidx didx addr prt =
     \<lparr>alive = True, platform_index = pidx, device_index = didx, ip = addr, port = prt,
      client = None, notifier = None, ocl_ga = None, device = None, ocl_ga_thread = None,
      popen = None\<rparr>"

text \<open>\<^verbatim>\<open>send\<close>: nothing without a connection handle.\<close>

definition send :: "'e OpenCLGAWorker \<Rightarrow> pyval \<Rightarrow> event list" where
  "send w d = (case client w of None \<Rightarrow> [] | Some c \<Rightarrow> [ClientSend d])"

definition generation_result :: "pyval \<Rightarrow> pyval \<Rightarrow> pyval" where
  "generation_result index d =
     PyDict [(PyStr ''type'', PyStr ''generation_result''), (PyStr ''index'', index),
             (PyStr ''result'', d)]"

definition end_msg :: pyval where
  "end_msg = PyDict [(PyStr ''type'', PyStr ''end'')]"

text \<open>
  \<^verbatim>\<open>send_and_dump_info\<close>, the generation callback: the three reads of \<open>d\<close> come
  first and can raise.
\<close>

definition send_and_dump_info ::
  "'e OpenCLGAWorker \<Rightarrow> pyval \<Rightarrow> pyval \<Rightarrow> event list \<times> py_exn option" where
  "send_and_dump_info w index d =
     (case getitem d ''best'' of
        Inl e \<Rightarrow> ([], Some e)
      | Inr b \<Rightarrow>
     (case getitem d ''avg'' of
        Inl e \<Rightarrow> ([], Some e)
      | Inr a \<Rightarrow>
     (case getitem d ''worst'' of
        Inl e \<Rightarrow> ([], Some e)
      | Inr wo \<Rightarrow>
          (Log Verbose (''{0}'' @ [CHR 0x09, CHR 0x09] @ ''==> {1} ~ {2} ~ {3}'') [index, b, a, wo]
             # send w (generation_result index d), None))))"

text \<open>
  The callbacks of one engine run, in order. An exception of the callback is raised inside
  the engine's \<^verbatim>\<open>run\<close>; the model lets it end the run.
\<close>

fun callbacks :: "'e OpenCLGAWorker \<Rightarrow> (pyval \<times> pyval) list \<Rightarrow> event list \<times> py_exn option" where
  "callbacks w [] = ([], None)"
| "callbacks w ((index, d) # rest) =
     (case send_and_dump_info w index d of
        (evs, Some e) \<Rightarrow> (evs, Some e)
      | (evs, None) \<Rightarrow> (case callbacks w rest of (evs', r) \<Rightarrow> (evs @ evs', r)))"

text \<open>\<^verbatim>\<open>run_ocl_ga\<close>, the body of the run thread.\<close>

definition run_ocl_ga ::
  "'e externals \<Rightarrow> 'e OpenCLGAWorker \<Rightarrow> pyval \<Rightarrow> 'e OpenCLGAWorker \<times> event list \<times> py_exn option" where
  "run_ocl_ga x w probs =
     (case unpack2 probs of
        Inl e \<Rightarrow> (w, [], Some e)
      | Inr (prob_mutate, prob_cross) \<Rightarrow>
     (case device w of
        None \<Rightarrow> (w, [], Some AttributeError)
      | Some dn \<Rightarrow>
     (let ev0 = [Log Info ''Worker [{}]: oclGA run with {}/{}'' [PyStr dn, prob_mutate, prob_cross]] in
      case ocl_ga w of
        None \<Rightarrow> (w, ev0, Some AttributeError)
      | Some g \<Rightarrow>
     (let ev1 = ev0 @ [GaCall ''run'' [prob_mutate, prob_cross]] in
      case ga_run x g prob_mutate prob_cross of (reports, out) \<Rightarrow>
     (case callbacks w reports of
        (evs, Some e) \<Rightarrow> (w, ev1 @ evs, Some e)
      | (evs, None) \<Rightarrow>
     (case out of
        Inl e \<Rightarrow> (w, ev1 @ evs, Some e)
      | Inr g' \<Rightarrow> (w\<lparr>ocl_ga := Some g'\<rparr>, ev1 @ evs @ send w end_msg, None)))))))"

text \<open>
  \<^verbatim>\<open>create_ocl_ga\<close>: the engine is stored in \<^verbatim>\<open>self.ocl_ga\<close> when its
  constructor returns, before its \<^verbatim>\<open>prepare()\<close> is called.
\<close>

definition create_ocl_ga ::
  "'e externals \<Rightarrow> 'e OpenCLGAWorker \<Rightarrow> string \<Rightarrow> pyval \<Rightarrow>
   'e OpenCLGAWorker \<times> event list \<times> py_exn option" where
  "create_ocl_ga x w dn options =
     (case getitem options ''sample_chromosome'' of
        Inl e \<Rightarrow> (w, [], Some e)
      | Inr sc \<Rightarrow>
     (case setitem options ''cl_context'' (PyObj ''context'') of
        Inl e \<Rightarrow> (w, [Print sc], Some e)
      | Inr o1 \<Rightarrow>
     (case setitem o1 ''generation_callback'' (PyObj ''send_and_dump_info'') of
        Inl e \<Rightarrow> (w, [Print sc], Some e)
      | Inr o2 \<Rightarrow>
     (case ga_new x o2 of
        Inl e \<Rightarrow> (w, [Print sc, GaNew o2], Some e)
      | Inr g \<Rightarrow>
     (case ga_prepare x g of
        Inl e \<Rightarrow> (w\<lparr>ocl_ga := Some g\<rparr>, [Print sc, GaNew o2, GaCall ''prepare'' []], Some e)
      | Inr g' \<Rightarrow>
          (w\<lparr>ocl_ga := Some g'\<rparr>,
           [Print sc, GaNew o2, GaCall ''prepare'' [],
            Log Info ''Worker [{}]: oclGA prepared'' [PyStr dn]], None))))))"

text \<open>
  A call \<^verbatim>\<open>self.ocl_ga.m(args)\<close> whose value is not used: on \<^verbatim>\<open>None\<close> the
  attribute lookup raises.
\<close>

definition ga_call ::
  "'e OpenCLGAWorker \<Rightarrow> string \<Rightarrow> pyval list \<Rightarrow> ('e \<Rightarrow> py_exn + 'e) \<Rightarrow>
   'e OpenCLGAWorker \<times> event list \<times> py_exn option" where
  "ga_call w name args m =
     (case ocl_ga w of
        None \<Rightarrow> (w, [], Some AttributeError)
      | Some g \<Rightarrow>
     (case m g of
        Inl e \<Rightarrow> (w, [GaCall name args], Some e)
      | Inr g' \<Rightarrow> (w\<lparr>ocl_ga := Some g'\<rparr>, [GaCall name args], None)))"

text \<open>
  The \<^verbatim>\<open>if\<close>/\<^verbatim>\<open>elif\<close> chain inside \<^verbatim>\<open>try\<close>, in the order of the source.
  The \<^verbatim>\<open>exit\<close> branch calls \<^verbatim>\<open>self.client.shutdown()\<close>, enters
  \<^verbatim>\<open>with self.notifier\<close> and sets \<^verbatim>\<open>self.alive\<close>; it assigns nothing to
  \<^verbatim>\<open>self.client\<close>. A handle that is still \<^verbatim>\<open>None\<close> makes the attribute lookup
  raise (for \<^verbatim>\<open>with None\<close>, AttributeError before Python 3.11, TypeError since; the
  model writes AttributeError).
\<close>

definition handle_cmd ::
  "'e externals \<Rightarrow> 'e OpenCLGAWorker \<Rightarrow> string \<Rightarrow> pyval \<Rightarrow> pyval \<Rightarrow>
   'e OpenCLGAWorker \<times> event list \<times> py_exn option" where
  "handle_cmd x w dn cmd payload =
     (if cmd = PyStr ''prepare'' then
        (case pickle_loads x payload of
           Inl e \<Rightarrow> (w, [], Some e)
         | Inr options \<Rightarrow> create_ocl_ga x w dn options)
      else if cmd = PyStr ''pause'' then ga_call w ''pause'' [] (ga_pause x)
      else if cmd = PyStr ''stop'' then ga_call w ''stop'' [] (ga_stop x)
      else if cmd = PyStr ''restore'' then
        ga_call w ''restore'' [payload] (\<lambda>g. ga_restore x g payload)
      else if cmd = PyStr ''save'' then
        (case ga_call w ''save'' [payload] (\<lambda>g. ga_save x g payload) of
           (w', evs, Some e) \<Rightarrow> (w', evs, Some e)
         | (w', evs, None) \<Rightarrow>
             (w', evs @ send w' (PyDict [(PyStr ''type'', PyStr ''save''), (PyStr ''result'', PyNone)]),
              None))
      else if cmd = PyStr ''best'' then
        (case ocl_ga w of
           None \<Rightarrow> (w, [], Some AttributeError)
         | Some g \<Rightarrow>
        (case ga_get_the_best x g of
           Inl e \<Rightarrow> (w, [GaCall ''get_the_best'' []], Some e)
         | Inr (best_chromosome, best_fitness, chromesome_kernel) \<Rightarrow>
             (w, GaCall ''get_the_best'' []
                 # send w (PyDict [(PyStr ''type'', PyStr ''best''),
                                   (PyStr ''result'', PyStr (py_repr x best_chromosome))]),
              None)))
      else if cmd = PyStr ''statistics'' then
        (case ocl_ga w of
           None \<Rightarrow> (w, [], Some AttributeError)
         | Some g \<Rightarrow>
        (case ga_get_statistics x g of
           Inl e \<Rightarrow> (w, [GaCall ''get_statistics'' []], Some e)
         | Inr st \<Rightarrow>
             (w, GaCall ''get_statistics'' []
                 # send w (PyDict [(PyStr ''type'', PyStr ''statistics''), (PyStr ''result'', st)]),
              None)))
      else if cmd = PyStr ''run'' then
        (w\<lparr>ocl_ga_thread := Some payload\<rparr>, [ThreadStart payload], None)
      else if cmd = PyStr ''exit'' then
        (case client w of
           None \<Rightarrow> (w, [], Some AttributeError)
         | Some c \<Rightarrow>
        (case notifier w of
           None \<Rightarrow> (w, [ClientShutdown], Some AttributeError)
         | Some n \<Rightarrow> (w\<lparr>alive := False\<rparr>, [ClientShutdown, NotifyAll], None)))
      else (w, [Log Error ''unknown command {}'' [cmd]], None))"

definition engine_cmds :: "string list" where
  "engine_cmds = [''pause'', ''stop'', ''restore'', ''best'', ''save'', ''statistics'']"

text \<open>
  \<^verbatim>\<open>process_data\<close>, the callback of the connection. \<open>Inl e\<close>: the exception
  \<open>e\<close> leaves \<^verbatim>\<open>process_data\<close>. \<open>Inr (w', evs)\<close>: it returns, with the worker and
  the events; an exception caught by the \<^verbatim>\<open>except\<close> clause ends the events as
  \<open>PrintExc\<close>. The statements before the test of \<^verbatim>\<open>self.ocl_ga\<close> are outside
  \<^verbatim>\<open>try\<close>.
\<close>

definition process_data ::
  "'e externals \<Rightarrow> 'e OpenCLGAWorker \<Rightarrow> 8 word list \<Rightarrow> py_exn + ('e OpenCLGAWorker \<times> event list)" where
  "process_data x w data =
     (case str_ascii data of
        Inl e \<Rightarrow> Inl e
      | Inr msg \<Rightarrow>
     (case py_eval x msg of
        Inl e \<Rightarrow> Inl e
      | Inr dict_msg \<Rightarrow>
     (case getitem dict_msg ''command'' of
        Inl e \<Rightarrow> Inl e
      | Inr cmd \<Rightarrow>
     (case getitem dict_msg ''data'' of
        Inl e \<Rightarrow> Inl e
      | Inr payload \<Rightarrow>
     (case device w of
        None \<Rightarrow> Inl AttributeError
      | Some dn \<Rightarrow>
     (let ev0 = [Log Verbose ''Worker [{}]: cmd received = {}'' [PyStr dn, cmd]] in
      if cmd \<in> set (map PyStr engine_cmds) \<and> ocl_ga w = None then
        Inr (w, ev0 @ [Log Error ''Cmd '{}' will only be processed after prepared '' [cmd]])
      else
        (case handle_cmd x w dn cmd payload of
           (w', evs, None) \<Rightarrow> Inr (w', ev0 @ evs)
         | (w', evs, Some e) \<Rightarrow> Inr (w', ev0 @ evs @ [PrintExc e]))))))))"

text \<open>What a list of events hands to the connection, and its calls of the engine.\<close>

definition sent :: "event list \<Rightarrow> pyval list" where
  "sent evs = concat (map (\<lambda>ev. case ev of ClientSend d \<Rightarrow> [d] | _ \<Rightarrow> []) evs)"

definition engine_events :: "event list \<Rightarrow> event list" where
  "engine_events evs =
     filter (\<lambda>ev. case ev of GaNew _ \<Rightarrow> True | GaCall _ _ \<Rightarrow> True | _ \<Rightarrow> False) evs"

subsection \<open>Device enumeration\<close>

text \<open>
  \<^verbatim>\<open>query_devices\<close>, run in a child process. \<open>platforms\<close> is what
  \<^verbatim>\<open>cl.get_platforms()\<close> returns, each platform given as the list of its
  \<^verbatim>\<open>get_devices()\<close>. The result is the list handed to \<^verbatim>\<open>c_p.send\<close>;
  \<^verbatim>\<open>platforms[0]\<close> raises IndexError when there is no platform, and nothing is sent.
\<close>

definition query_devices :: "'d list list \<Rightarrow> py_exn + (nat \<times> nat) list" where
  "query_devices platforms =
     (case platforms of
        [] \<Rightarrow> Inl IndexError
      | p0 # _ \<Rightarrow>
          Inr (fold (\<lambda>pidx data.
                 fold (\<lambda>didx data. data @ [(pidx, didx)]) [0..<length (platforms ! pidx)] data)
               [0..<length platforms] []))"

text \<open>The order of the claim: platform index first, then device index.\<close>

definition dev_less :: "nat \<times> nat \<Rightarrow> nat \<times> nat \<Rightarrow> bool" where
  "dev_less a b = (fst a < fst b \<or> (fst a = fst b \<and> snd a < snd b))"

subsection \<open>The pool\<close>

text \<open>
  \<^verbatim>\<open>Process.start\<close>, \<^verbatim>\<open>Process.is_alive\<close> and \<^verbatim>\<open>Process.terminate\<close> of the
  standard library, on the \<open>popen\<close> field: a process starts once, is alive while its
  child lives, and cannot be terminated before it was started.
\<close>

definition Process_start ::
  "'e OpenCLGAWorker \<Rightarrow> 'e OpenCLGAWorker \<times> event list \<times> py_exn option" where
  "Process_start w =
     (case popen w of
        None \<Rightarrow> (w\<lparr>popen := Some True\<rparr>, [ProcessStart (platform_index w) (device_index w)], None)
      | Some _ \<Rightarrow> (w, [], Some AssertionError))"

definition Process_is_alive :: "'e OpenCLGAWorker \<Rightarrow> bool" where
  "Process_is_alive w = (popen w = Some True)"

text \<open>
  \<^verbatim>\<open>OpenCLGAWorker.terminate\<close>. It calls \<^verbatim>\<open>self.notifier.notifyAll()\<close> without
  holding the lock of the condition (no \<^verbatim>\<open>with self.notifier\<close>, unlike the
  \<^verbatim>\<open>exit\<close> branch): on a condition that is set, \<^verbatim>\<open>threading.Condition\<close> raises
  RuntimeError there, before the fields are reset and before \<^verbatim>\<open>Process.terminate\<close>.
\<close>

definition terminate ::
  "'e OpenCLGAWorker \<Rightarrow> 'e OpenCLGAWorker \<times> event list \<times> py_exn option" where
  "terminate w =
     (let evs = (case client w of None \<Rightarrow> [] | Some c \<Rightarrow> [ClientShutdown])
      in case notifier w of
           Some n \<Rightarrow> (w, evs, Some RuntimeError)
         | None \<Rightarrow>
             (let w' = w\<lparr>client := None, alive := False, notifier := None\<rparr>
              in case popen w' of
                   None \<Rightarrow> (w', evs, Some AttributeError)
                 | Some _ \<Rightarrow>
                     (w', evs @ [ProcessTerminate (platform_index w) (device_index w)], None)))"

text \<open>
  The pool: the list \<^verbatim>\<open>__workerProcesses\<close> and the attribute \<^verbatim>\<open>alive\<close>, which
  only \<^verbatim>\<open>shutdown\<close> sets.
\<close>

record 'e OpenCLGAClient =
  workerProcesses :: "'e OpenCLGAWorker list"
  client_alive :: "bool option"

definition fork_process ::
  "'e OpenCLGAClient \<Rightarrow> nat \<Rightarrow> nat \<Rightarrow> string \<Rightarrow> nat \<Rightarrow> 'e OpenCLGAClient" where
  "fork_process p pidx didx addr prt =
     p\<lparr>workerProcesses := workerProcesses p @ [OpenCLGAWorker_init pidx didx addr prt]\<rparr>"

text \<open>
  \<^verbatim>\<open>create_workers_for_devices\<close>, from the list that \<^verbatim>\<open>p_p.recv()\<close> returned: the
  one \<^verbatim>\<open>query_devices\<close> sent.
\<close>

definition create_workers_for_devices ::
  "'e OpenCLGAClient \<Rightarrow> (nat \<times> nat) list \<Rightarrow> string \<Rightarrow> nat \<Rightarrow> 'e OpenCLGAClient" where
  "create_workers_for_devices p device_list addr prt =
     fold (\<lambda>dev p. fork_process p (fst dev) (snd dev) addr prt) device_list p"

text \<open>The loop of \<^verbatim>\<open>start_workers\<close>; an exception leaves the later workers as they are.\<close>

fun start_each ::
  "'e OpenCLGAWorker list \<Rightarrow> 'e OpenCLGAWorker list \<times> event list \<times> py_exn option" where
  "start_each [] = ([], [], None)"
| "start_each (worker # rest) =
     (case Process_start worker of
        (w', evs, Some e) \<Rightarrow> (w' # rest, evs, Some e)
      | (w', evs, None) \<Rightarrow>
          (case start_each rest of (rest', evs', r) \<Rightarrow> (w' # rest', evs @ evs', r)))"

definition start_workers ::
  "'e OpenCLGAClient \<Rightarrow> 'e OpenCLGAClient \<times> event list \<times> py_exn option" where
  "start_workers p =
     (case start_each (workerProcesses p) of
        (ws, evs, r) \<Rightarrow> (p\<lparr>workerProcesses := ws\<rparr>, evs, r))"

definition OpenCLGAClient_init ::
  "(nat \<times> nat) list \<Rightarrow> string \<Rightarrow> nat \<Rightarrow> 'e OpenCLGAClient \<times> event list \<times> py_exn option" where
  "OpenCLGAClient_init device_list addr prt =
     start_workers
       (create_workers_for_devices \<lparr>workerProcesses = [], client_alive = None\<rparr> device_list addr prt)"

text \<open>
  The loop of \<^verbatim>\<open>stop_workers\<close>: the print, whose format string has no field, then
  \<^verbatim>\<open>terminate\<close>.
\<close>

fun terminate_each ::
  "'e OpenCLGAWorker list \<Rightarrow> 'e OpenCLGAWorker list \<times> event list \<times> py_exn option" where
  "terminate_each [] = ([], [], None)"
| "terminate_each (worker # rest) =
     (case terminate worker of
        (w', evs, Some e) \<Rightarrow> (w' # rest, Print (PyStr ''process is alive'') # evs, Some e)
      | (w', evs, None) \<Rightarrow>
          (case terminate_each rest of
             (rest', evs', r) \<Rightarrow> (w' # rest', Print (PyStr ''process is alive'') # evs @ evs', r)))"

text \<open>\<^verbatim>\<open>stop_workers\<close>: the list is cleared after the loop.\<close>

definition stop_workers ::
  "'e OpenCLGAClient \<Rightarrow> 'e OpenCLGAClient \<times> event list \<times> py_exn option" where
  "stop_workers p =
     (case terminate_each (workerProcesses p) of
        (ws, evs, Some e) \<Rightarrow> (p\<lparr>workerProcesses := ws\<rparr>, evs, Some e)
      | (ws, evs, None) \<Rightarrow> (p\<lparr>workerProcesses := []\<rparr>, evs, None))"

definition shutdown ::
  "'e OpenCLGAClient \<Rightarrow> 'e OpenCLGAClient \<times> event list \<times> py_exn option" where
  "shutdown p =
     (case stop_workers p of
        (p', evs, Some e) \<Rightarrow> (p', evs, Some e)
      | (p', evs, None) \<Rightarrow> (p'\<lparr>client_alive := Some False\<rparr>, evs, None))"

text \<open>\<^verbatim>\<open>is_alive\<close>: the loop over the workers, begun with \<^verbatim>\<open>alive = True\<close>.\<close>

definition is_alive :: "'e OpenCLGAClient \<Rightarrow> bool" where
  "is_alive p = fold (\<lambda>worker alive. alive \<and> Process_is_alive worker) (workerProcesses p) True"

text \<open>
  Between two polls, children may end: \<open>ended i\<close> says that the child of the worker at
  position \<open>i\<close> has ended by the next poll.
\<close>

definition reap :: "(nat \<Rightarrow> bool) \<Rightarrow> 'e OpenCLGAClient \<Rightarrow> 'e OpenCLGAClient" where
  "reap ended p =
     p\<lparr>workerProcesses :=
         map (\<lambda>(i, w). if popen w = Some True \<and> ended i then w\<lparr>popen := Some False\<rparr> else w)
           (enumerate 0 (workerProcesses p))\<rparr>"

text \<open>
  The loop of \<^verbatim>\<open>start_ocl_ga_client\<close>, one element of the list for each poll:
  \<open>Some\<close> when a poll finds the pool not alive and the loop is left, \<open>None\<close> when
  every poll of the list finds it alive, so that the loop is still running.
\<close>

fun polling :: "'e OpenCLGAClient \<Rightarrow> (nat \<Rightarrow> bool) list \<Rightarrow> event list option" where
  "polling p [] = None"
| "polling p (ended # rest) =
     (if \<not> is_alive (reap ended p) then Some [Log Info ''[OpenCLGAClient] Bye Bye !!'' []]
      else polling (reap ended p) rest)"

text \<open>
  \<^verbatim>\<open>start_ocl_ga_client\<close>, called once: \<open>Some (evs, r)\<close> when it returns or raises,
  \<open>None\<close> while it polls. The workers of the pool live in the parent process, where none
  holds an engine: their engine type is \<open>unit\<close>. The interrupt from the keyboard, which
  leaves the loop through \<^verbatim>\<open>shutdown\<close>, is not an input of the model.
\<close>

definition start_ocl_ga_client ::
  "(nat \<times> nat) list \<Rightarrow> string \<Rightarrow> nat \<Rightarrow> (nat \<Rightarrow> bool) list \<Rightarrow>
   (event list \<times> py_exn option) option" where
  "start_ocl_ga_client device_list server prt polls =
     (case (OpenCLGAClient_init device_list server prt
              :: unit OpenCLGAClient \<times> event list \<times> py_exn option) of
        (p, evs, Some e) \<Rightarrow> Some (evs, Some e)
      | (p, evs, None) \<Rightarrow>
          (case polling p polls of
             None \<Rightarrow> None
           | Some evs' \<Rightarrow> Some (evs @ evs', None)))"

subsection \<open>Concrete externals and workers\<close>

text \<open>
  A stub of the externals, for evaluating the definitions: an \<^verbatim>\<open>eval\<close> that knows
  seven message texts, an unpickler that knows one pickle, and an engine whose state counts
  generations and whose run reports three of them.
\<close>

definition ascii_bytes :: "string \<Rightarrow> 8 word list" where
  "ascii_bytes s = map of_char s"

text \<open>
  The bytes of \<^verbatim>\<open>pickle.dumps({'sample_chromosome': [0, 1, 2]}, 0)\<close>, whose lines end
  with the byte 10, and the text of the prepare message that carries them: in the text of
  a bytes literal each such byte is written as a backslash (the character 92) and
  \<^verbatim>\<open>n\<close>.
\<close>

definition pickled_options :: "8 word list" where
  "pickled_options =
     ascii_bytes (''(dp0'' @ [CHR 0x0A] @ ''Vsample_chromosome'' @ [CHR 0x0A] @ ''p1'' @ [CHR 0x0A]
       @ ''(lp2'' @ [CHR 0x0A] @ ''I0'' @ [CHR 0x0A] @ ''aI1'' @ [CHR 0x0A] @ ''aI2'' @ [CHR 0x0A]
       @ ''as.'')"

definition prepare_text :: string where
  \<open>prepare_text =
     ''{"command": "prepare", "data": b"(dp0'' @ [CHR 0x5C] @ ''nVsample_chromosome''
       @ [CHR 0x5C] @ ''np1'' @ [CHR 0x5C] @ ''n(lp2'' @ [CHR 0x5C] @ ''nI0'' @ [CHR 0x5C]
       @ ''naI1'' @ [CHR 0x5C] @ ''naI2'' @ [CHR 0x5C] @ ''nas."}''\<close>

definition stub_messages :: "(string \<times> pyval) list" where
  \<open>stub_messages =
     [(prepare_text,
         PyDict [(PyStr ''command'', PyStr ''prepare''),
                 (PyStr ''data'', PyBytes pickled_options)]),
      (''{"command": "pause", "data": None}'',
         PyDict [(PyStr ''command'', PyStr ''pause''), (PyStr ''data'', PyNone)]),
      (''{"command": "best", "data": None}'',
         PyDict [(PyStr ''command'', PyStr ''best''), (PyStr ''data'', PyNone)]),
      (''{"command": "run", "data": (0.05, 0.9)}'',
         PyDict [(PyStr ''command'', PyStr ''run''),
                 (PyStr ''data'', PyTuple [PyFloat ''0.05'', PyFloat ''0.9''])]),
      (''{"command": "exit", "data": None}'',
         PyDict [(PyStr ''command'', PyStr ''exit''), (PyStr ''data'', PyNone)]),
      (''{"data": None}'', PyDict [(PyStr ''data'', PyNone)]),
      (''{}'', PyDict [])]\<close>

definition stub_eval :: "string \<Rightarrow> py_exn + pyval" where
  "stub_eval s = (case map_of stub_messages s of None \<Rightarrow> Inl SyntaxError | Some v \<Rightarrow> Inr v)"

definition stub_stats :: "int \<Rightarrow> pyval" where
  "stub_stats n =
     PyDict [(PyStr ''best'', PyInt n), (PyStr ''avg'', PyInt (n + 1)), (PyStr ''worst'', PyInt (n + 2))]"

definition stub_ext :: "nat externals" where
  "stub_ext =
     \<lparr>py_eval = stub_eval,
      py_repr = (\<lambda>v. ''[0, 1, 2]''),
      pickle_loads = (\<lambda>v. case v of
                           PyBytes bs \<Rightarrow>
                             if bs = pickled_options
                             then Inr (PyDict [(PyStr ''sample_chromosome'',
                                                PyList [PyInt 0, PyInt 1, PyInt 2])])
                             else Inl UnpicklingError
                         | _ \<Rightarrow> Inl TypeError),
      ga_new = (\<lambda>opts. Inr 0),
      ga_prepare = (\<lambda>g. Inr g),
      ga_pause = (\<lambda>g. Inr g),
      ga_stop = (\<lambda>g. Inr g),
      ga_restore = (\<lambda>g v. Inr g),
      ga_save = (\<lambda>g v. Inr g),
      ga_get_the_best = (\<lambda>g. Inr (PyList [PyInt 0, PyInt 1, PyInt 2], PyInt 7, PyObj ''kernel'')),
      ga_get_statistics = (\<lambda>g. Inr (stub_stats 7)),
      ga_run = (\<lambda>g m c. ([(PyInt 0, stub_stats 30), (PyInt 1, stub_stats 20),
                            (PyInt 2, stub_stats 10)], Inr (g + 3)))\<rparr>"

text \<open>The same, with an engine whose \<^verbatim>\<open>prepare()\<close> raises.\<close>

definition unprepared_ext :: "nat externals" where
  "unprepared_ext = stub_ext\<lparr>ga_prepare := (\<lambda>g. Inl RuntimeError)\<rparr>"

text \<open>The same, with an engine whose \<^verbatim>\<open>run\<close> raises after its first generation.\<close>

definition crashing_ext :: "nat externals" where
  "crashing_ext = stub_ext\<lparr>ga_run := (\<lambda>g m c. ([(PyInt 0, stub_stats 30)], Inl RuntimeError))\<rparr>"

text \<open>
  A worker as \<^verbatim>\<open>run\<close> leaves it when it waits for commands: context created,
  connected, no engine yet. Then the same worker holding the engine \<open>0\<close>.
\<close>

definition connected :: "nat OpenCLGAWorker" where
  "connected = (OpenCLGAWorker_init 0 0 ''127.0.0.1'' 12345)
     \<lparr>client := Some (Client ''127.0.0.1'' 12345), notifier := Some Condition,
      device := Some ''GPU'', popen := Some True\<rparr>"

definition prepared :: "nat OpenCLGAWorker" where
  "prepared = connected\<lparr>ocl_ga := Some 0\<rparr>"

text \<open>A pool of two started workers whose children live.\<close>

definition two_workers :: "unit OpenCLGAClient" where
  "two_workers =
     \<lparr>workerProcesses = [(OpenCLGAWorker_init 0 0 ''127.0.0.1'' 12345)\<lparr>popen := Some True\<rparr>,
                         (OpenCLGAWorker_init 0 1 ''127.0.0.1'' 12345)\<lparr>popen := Some True\<rparr>],
      client_alive = None\<rparr>"

text \<open>The data of a generation report has the keys that the callback reads.\<close>

definition has_keys :: "pyval \<Rightarrow> string list \<Rightarrow> bool" where
  "has_keys d ks = list_all (\<lambda>k. \<not> isl (getitem d k)) ks"

section \<open>Properties\<close>

subsection \<open>Auxiliary facts\<close>

lemma generation_result_not_end: "generation_result i d \<noteq> end_msg"
  by (simp add: generation_result_def end_msg_def)

lemma sent_append: "sent (xs @ ys) = sent xs @ sent ys"
  by (simp add: sent_def)

lemma sent_Nil: "sent [] = []"
  by (simp add: sent_def)

lemma send_and_dump_info_ok:
  assumes "client w = Some cl" and "has_keys d [''best'', ''avg'', ''worst'']"
  shows "\<exists>evs. send_and_dump_info w i d = (evs, None) \<and> sent evs = [generation_result i d]"
  using assms
  by (auto simp add: send_and_dump_info_def has_keys_def send_def sent_def split: sum.splits)

lemma callbacks_sent:
  assumes "client w = Some cl"
    and "list_all (\<lambda>(i, d). has_keys d [''best'', ''avg'', ''worst'']) reports"
  shows "\<exists>evs. callbacks w reports = (evs, None)
           \<and> sent evs = map (\<lambda>(i, d). generation_result i d) reports"
  using assms(2)
proof (induction reports)
  case Nil
  show ?case by (simp add: sent_Nil)
next
  case (Cons r rest)
  obtain i d where r: "r = (i, d)" by (cases r)
  from Cons.prems r have "has_keys d [''best'', ''avg'', ''worst'']" by simp
  from send_and_dump_info_ok [OF assms(1) this, of i]
  obtain ev1 where 1: "send_and_dump_info w i d = (ev1, None)" "sent ev1 = [generation_result i d]"
    by blast
  from Cons obtain ev2 where 2: "callbacks w rest = (ev2, None)"
    "sent ev2 = map (\<lambda>(i, d). generation_result i d) rest"
    by auto
  show ?case using r 1 2 by (simp add: sent_append)
qed

lemma fold_and: "fold (\<lambda>w a. a \<and> P w) ws b = (b \<and> list_all P ws)"
  by (induction ws arbitrary: b) auto

lemma inner_fold:
  "fold (\<lambda>didx data. data @ [(p, didx)]) ds acc = acc @ map (Pair p) ds"
  by (induction ds arbitrary: acc) auto

lemma outer_fold:
  "fold (\<lambda>pidx data. fold (\<lambda>didx data. data @ [(pidx, didx)]) [0..<f pidx] data) ps acc
     = acc @ concat (map (\<lambda>p. map (Pair p) [0..<f p]) ps)"
  by (induction ps arbitrary: acc) (auto simp add: inner_fold)

lemma query_devices_concat:
  "platforms \<noteq> [] \<Longrightarrow>
   query_devices platforms
     = Inr (concat (map (\<lambda>p. map (Pair p) [0..<length (platforms ! p)]) [0..<length platforms]))"
  unfolding query_devices_def outer_fold by (cases platforms) simp_all

lemma sorted_row: "sorted_wrt dev_less (map (Pair p) [0..<n])"
  by (simp add: sorted_wrt_map dev_less_def)

lemma sorted_rows:
  "sorted_wrt (<) ps \<Longrightarrow> sorted_wrt dev_less (concat (map (\<lambda>p. map (Pair p) [0..<f p]) ps))"
  by (induction ps) (auto simp add: sorted_wrt_append sorted_row dev_less_def)

lemma dev_less_distinct: "sorted_wrt dev_less ds \<Longrightarrow> distinct ds"
  by (induction ds) (auto simp add: dev_less_def)

lemma stop_workers_returned:
  "stop_workers p = (p', evs, None) \<Longrightarrow> workerProcesses p' = []"
  by (auto simp add: stop_workers_def split: prod.splits option.splits)

lemma terminate_started:
  "popen w \<noteq> None \<Longrightarrow> notifier w = None \<Longrightarrow> \<exists>w' evs. terminate w = (w', evs, None)"
  by (auto simp add: terminate_def Let_def split: option.splits)

lemma terminate_notifier_raises:
  "notifier w = Some n \<Longrightarrow> \<exists>evs. terminate w = (w, evs, Some RuntimeError)"
  by (simp add: terminate_def Let_def)

lemma terminate_each_started:
  "list_all (\<lambda>w. popen w \<noteq> None \<and> notifier w = None) ws \<Longrightarrow>
   \<exists>ws' evs. terminate_each ws = (ws', evs, None)"
proof (induction ws)
  case Nil
  show ?case by simp
next
  case (Cons w ws)
  from Cons.prems have "popen w \<noteq> None" and "notifier w = None" by simp_all
  from terminate_started [OF this] obtain w' ev1 where 1: "terminate w = (w', ev1, None)" by blast
  from Cons obtain ws' ev2 where 2: "terminate_each ws = (ws', ev2, None)" by auto
  show ?case using 1 2 by simp
qed

lemma stop_workers_started:
  "list_all (\<lambda>w. popen w \<noteq> None \<and> notifier w = None) (workerProcesses p) \<Longrightarrow>
   \<exists>evs. stop_workers p = (p\<lparr>workerProcesses := []\<rparr>, evs, None)"
  using terminate_each_started [of "workerProcesses p"]
  by (auto simp add: stop_workers_def)

lemma stop_two_workers:
  "stop_workers two_workers
     = (two_workers\<lparr>workerProcesses := []\<rparr>,
        [Print (PyStr ''process is alive''), ProcessTerminate 0 0,
         Print (PyStr ''process is alive''), ProcessTerminate 0 1], None)"
  by (simp add: stop_workers_def two_workers_def terminate_def OpenCLGAWorker_init_def)

lemma reap_empty: "workerProcesses p = [] \<Longrightarrow> workerProcesses (reap ended p) = []"
  by (simp add: reap_def)

lemma polling_empty: "workerProcesses p = [] \<Longrightarrow> polling p polls = None"
  by (induction polls arbitrary: p) (simp_all add: reap_empty is_alive_def)

subsection \<open>Commands before the engine exists\<close>

text \<open>
  The guard of \<^verbatim>\<open>process_data\<close> tests \<^verbatim>\<open>not self.ocl_ga\<close>. A worker that holds
  no engine receives a message that decodes to one of the commands pause, stop, restore,
  best, save, statistics: \<^verbatim>\<open>process_data\<close> returns with the worker unchanged, its
  events hold no call of the engine and nothing handed to the connection, and the
  rejection is logged as an error.
\<close>

lemma engine_cmd_rejected_without_engine:
  assumes "str_ascii data = Inr msg" and "py_eval x msg = Inr dict_msg"
    and "getitem dict_msg ''command'' = Inr (PyStr c)"
    and "getitem dict_msg ''data'' = Inr payload"
    and "c \<in> set engine_cmds" and "ocl_ga w = None" and "device w = Some dn"
  shows "\<exists>evs. process_data x w data = Inr (w, evs) \<and> engine_events evs = [] \<and> sent evs = []
           \<and> Log Error ''Cmd '{}' will only be processed after prepared '' [PyStr c] \<in> set evs"
  using assms by (simp add: process_data_def engine_events_def sent_def)

text \<open>The same at a concrete input: pause, sent to the connected worker without engine.\<close>

lemma pause_rejected_without_engine:
  \<open>\<exists>evs. process_data stub_ext connected (ascii_bytes ''{"command": "pause", "data": None}'')
            = Inr (connected, evs) \<and> engine_events evs = [] \<and> sent evs = []
           \<and> Log Error ''Cmd '{}' will only be processed after prepared '' [PyStr ''pause''] \<in> set evs\<close>
proof -
  let ?m = \<open>''{"command": "pause", "data": None}''\<close>
  let ?d = "PyDict [(PyStr ''command'', PyStr ''pause''), (PyStr ''data'', PyNone)]"
  have 1: "str_ascii (ascii_bytes ?m) = Inr ?m"
    by code_simp
  have 2: "py_eval stub_ext ?m = Inr ?d"
    by (simp add: stub_ext_def stub_eval_def stub_messages_def prepare_text_def)
  have 3: "getitem ?d ''command'' = Inr (PyStr ''pause'')" by simp
  have 4: "getitem ?d ''data'' = Inr PyNone" by simp
  have 5: "''pause'' \<in> set engine_cmds" by (simp add: engine_cmds_def)
  have 6: "ocl_ga connected = None" by (simp add: connected_def OpenCLGAWorker_init_def)
  have 7: "device connected = Some ''GPU''" by (simp add: connected_def OpenCLGAWorker_init_def)
  show ?thesis by (rule engine_cmd_rejected_without_engine [OF 1 2 3 4 5 6 7])
qed

text \<open>
  Claim C1 says that each of the six commands is rejected, with no change of state, no
  call of the engine and no result, on a worker whose engine has not been created by a
  successful prepare. Evaluated on the worker without engine that receives a prepare
  message whose engine \<^verbatim>\<open>prepare()\<close> raises, and then \<^verbatim>\<open>pause\<close>: the failed
  prepare has left the engine in \<^verbatim>\<open>self.ocl_ga\<close>, the guard lets \<^verbatim>\<open>pause\<close>
  through, and \<^verbatim>\<open>process_data\<close> calls the \<^verbatim>\<open>pause()\<close> of the unprepared engine
  instead of logging a rejection.
\<close>

theorem engine_cmd_accepted_after_failed_prepare:
  \<open>ocl_ga connected = None
   \<and> process_data unprepared_ext connected (ascii_bytes prepare_text)
     = Inr (connected\<lparr>ocl_ga := Some 0\<rparr>,
            [Log Verbose ''Worker [{}]: cmd received = {}'' [PyStr ''GPU'', PyStr ''prepare''],
             Print (PyList [PyInt 0, PyInt 1, PyInt 2]),
             GaNew (PyDict [(PyStr ''sample_chromosome'', PyList [PyInt 0, PyInt 1, PyInt 2]),
                            (PyStr ''cl_context'', PyObj ''context''),
                            (PyStr ''generation_callback'', PyObj ''send_and_dump_info'')]),
             GaCall ''prepare'' [],
             PrintExc RuntimeError])
   \<and> process_data unprepared_ext (connected\<lparr>ocl_ga := Some 0\<rparr>)
        (ascii_bytes ''{"command": "pause", "data": None}'')
     = Inr (connected\<lparr>ocl_ga := Some 0\<rparr>,
            [Log Verbose ''Worker [{}]: cmd received = {}'' [PyStr ''GPU'', PyStr ''pause''],
             GaCall ''pause'' []])\<close>
  by code_simp

subsection \<open>The run command\<close>

text \<open>
  Claim C2, as the code has it. A worker that holds an engine and a connection receives
  \<^verbatim>\<open>run\<close> with the pair \<open>(pm, pc)\<close>: \<^verbatim>\<open>process_data\<close> starts the run thread and
  hands nothing to the connection. When the engine's \<^verbatim>\<open>run\<close> returns, having
  reported generations whose data hold best, avg and worst, the thread has handed to the
  connection one \<^verbatim>\<open>generation_result\<close> for each report, in order, then the one
  \<^verbatim>\<open>end\<close> message, and nothing after it.
\<close>

theorem run_emits_results_then_end:
  assumes "str_ascii data = Inr msg" and "py_eval x msg = Inr dict_msg"
    and "getitem dict_msg ''command'' = Inr (PyStr ''run'')"
    and "getitem dict_msg ''data'' = Inr (PyTuple [pm, pc])"
    and "device w = Some dn" and "client w = Some cl" and "ocl_ga w = Some g"
    and "ga_run x g pm pc = (reports, Inr g')"
    and "list_all (\<lambda>(i, d). has_keys d [''best'', ''avg'', ''worst'']) reports"
  shows "process_data x w data
           = Inr (w\<lparr>ocl_ga_thread := Some (PyTuple [pm, pc])\<rparr>,
                  [Log Verbose ''Worker [{}]: cmd received = {}'' [PyStr dn, PyStr ''run''],
                   ThreadStart (PyTuple [pm, pc])])
         \<and> (\<exists>evs. run_ocl_ga x (w\<lparr>ocl_ga_thread := Some (PyTuple [pm, pc])\<rparr>) (PyTuple [pm, pc])
                     = (w\<lparr>ocl_ga_thread := Some (PyTuple [pm, pc]), ocl_ga := Some g'\<rparr>, evs, None)
                \<and> sent evs = map (\<lambda>(i, d). generation_result i d) reports @ [end_msg]
                \<and> end_msg \<notin> set (map (\<lambda>(i, d). generation_result i d) reports))"
proof (intro conjI)
  let ?w = "w\<lparr>ocl_ga_thread := Some (PyTuple [pm, pc])\<rparr>"
  let ?head = "[Log Info ''Worker [{}]: oclGA run with {}/{}'' [PyStr dn, pm, pc],
                GaCall ''run'' [pm, pc]]"
  show "process_data x w data
           = Inr (?w, [Log Verbose ''Worker [{}]: cmd received = {}'' [PyStr dn, PyStr ''run''],
                   ThreadStart (PyTuple [pm, pc])])"
    using assms(1-5) by (simp add: process_data_def handle_cmd_def engine_cmds_def)
  have cl: "client ?w = Some cl" using assms(6) by simp
  from callbacks_sent [OF cl assms(9)]
  obtain ev where ev: "callbacks ?w reports = (ev, None)"
    "sent ev = map (\<lambda>(i, d). generation_result i d) reports"
    by blast
  have "run_ocl_ga x ?w (PyTuple [pm, pc])
          = (?w\<lparr>ocl_ga := Some g'\<rparr>, ?head @ ev @ [ClientSend end_msg], None)"
    using assms(5-8) ev(1) by (simp add: run_ocl_ga_def unpack2_def send_def)
  moreover have "sent (?head @ ev @ [ClientSend end_msg])
                   = map (\<lambda>(i, d). generation_result i d) reports @ [end_msg]"
    using ev(2) by (simp add: sent_def)
  moreover have "end_msg \<notin> set (map (\<lambda>(i, d). generation_result i d) reports)"
    using generation_result_not_end by (auto simp add: eq_commute)
  ultimately show "\<exists>evs. run_ocl_ga x ?w (PyTuple [pm, pc]) = (?w\<lparr>ocl_ga := Some g'\<rparr>, evs, None)
                \<and> sent evs = map (\<lambda>(i, d). generation_result i d) reports @ [end_msg]
                \<and> end_msg \<notin> set (map (\<lambda>(i, d). generation_result i d) reports)"
    by blast
qed

text \<open>
  Claim C2, at a concrete input: \<^verbatim>\<open>run(0.05, 0.9)\<close> on the prepared worker, with the
  stub engine that reports three generations.
\<close>

theorem run_emits_results_then_end_witness:
  \<open>process_data stub_ext prepared (ascii_bytes ''{"command": "run", "data": (0.05, 0.9)}'')
     = Inr (prepared\<lparr>ocl_ga_thread := Some (PyTuple [PyFloat ''0.05'', PyFloat ''0.9''])\<rparr>,
            [Log Verbose ''Worker [{}]: cmd received = {}'' [PyStr ''GPU'', PyStr ''run''],
             ThreadStart (PyTuple [PyFloat ''0.05'', PyFloat ''0.9''])])
   \<and> (\<exists>evs. run_ocl_ga stub_ext
               (prepared\<lparr>ocl_ga_thread := Some (PyTuple [PyFloat ''0.05'', PyFloat ''0.9''])\<rparr>)
               (PyTuple [PyFloat ''0.05'', PyFloat ''0.9''])
             = (prepared\<lparr>ocl_ga_thread := Some (PyTuple [PyFloat ''0.05'', PyFloat ''0.9'']),
                         ocl_ga := Some 3\<rparr>, evs, None)
          \<and> sent evs = map (\<lambda>(i, d). generation_result i d)
                           [(PyInt 0, stub_stats 30), (PyInt 1, stub_stats 20), (PyInt 2, stub_stats 10)]
                         @ [end_msg]
          \<and> end_msg \<notin> set (map (\<lambda>(i, d). generation_result i d)
                           [(PyInt 0, stub_stats 30), (PyInt 1, stub_stats 20), (PyInt 2, stub_stats 10)]))\<close>
proof -
  let ?m = \<open>''{"command": "run", "data": (0.05, 0.9)}''\<close>
  let ?p = "PyTuple [PyFloat ''0.05'', PyFloat ''0.9'']"
  let ?d = "PyDict [(PyStr ''command'', PyStr ''run''), (PyStr ''data'', ?p)]"
  let ?r = "[(PyInt 0, stub_stats 30), (PyInt 1, stub_stats 20), (PyInt 2, stub_stats 10)]"
  have 1: "str_ascii (ascii_bytes ?m) = Inr ?m" by code_simp
  have 2: "py_eval stub_ext ?m = Inr ?d"
    by (simp add: stub_ext_def stub_eval_def stub_messages_def prepare_text_def)
  have 3: "getitem ?d ''command'' = Inr (PyStr ''run'')" by simp
  have 4: "getitem ?d ''data'' = Inr ?p" by simp
  have 5: "device prepared = Some ''GPU''"
    by (simp add: prepared_def connected_def OpenCLGAWorker_init_def)
  have 6: "client prepared = Some (Client ''127.0.0.1'' 12345)"
    by (simp add: prepared_def connected_def OpenCLGAWorker_init_def)
  have 7: "ocl_ga prepared = Some 0"
    by (simp add: prepared_def connected_def OpenCLGAWorker_init_def)
  have 8: "ga_run stub_ext 0 (PyFloat ''0.05'') (PyFloat ''0.9'') = (?r, Inr 3)"
    by (simp add: stub_ext_def)
  have 9: "list_all (\<lambda>(i, d). has_keys d [''best'', ''avg'', ''worst'']) ?r"
    by (simp add: has_keys_def stub_stats_def)
  show ?thesis by (rule run_emits_results_then_end [OF 1 2 3 4 5 6 7 8 9])
qed

text \<open>
  Claim C2 as it is written, for every prepared worker, fails when the engine's
  \<^verbatim>\<open>run\<close> raises: \<^verbatim>\<open>run_ocl_ga\<close> has no handler, the exception ends the thread
  before \<^verbatim>\<open>self.send({"type": "end"})\<close>. Here the engine reports one generation and
  raises; the prepared worker hands that one result to the connection and no
  \<^verbatim>\<open>end\<close> message.
\<close>

theorem run_without_end_counterexample:
  \<open>ocl_ga prepared = Some 0
   \<and> process_data crashing_ext prepared (ascii_bytes ''{"command": "run", "data": (0.05, 0.9)}'')
     = Inr (prepared\<lparr>ocl_ga_thread := Some (PyTuple [PyFloat ''0.05'', PyFloat ''0.9''])\<rparr>,
            [Log Verbose ''Worker [{}]: cmd received = {}'' [PyStr ''GPU'', PyStr ''run''],
             ThreadStart (PyTuple [PyFloat ''0.05'', PyFloat ''0.9''])])
   \<and> run_ocl_ga crashing_ext
        (prepared\<lparr>ocl_ga_thread := Some (PyTuple [PyFloat ''0.05'', PyFloat ''0.9''])\<rparr>)
        (PyTuple [PyFloat ''0.05'', PyFloat ''0.9''])
     = (prepared\<lparr>ocl_ga_thread := Some (PyTuple [PyFloat ''0.05'', PyFloat ''0.9''])\<rparr>,
        [Log Info ''Worker [{}]: oclGA run with {}/{}'' [PyStr ''GPU'', PyFloat ''0.05'', PyFloat ''0.9''],
         GaCall ''run'' [PyFloat ''0.05'', PyFloat ''0.9''],
         Log Verbose (''{0}'' @ [CHR 0x09, CHR 0x09] @ ''==> {1} ~ {2} ~ {3}'')
           [PyInt 0, PyInt 30, PyInt 31, PyInt 32],
         ClientSend (generation_result (PyInt 0) (stub_stats 30))],
        Some RuntimeError)
   \<and> end_msg \<notin> set (sent (fst (snd (run_ocl_ga crashing_ext
        (prepared\<lparr>ocl_ga_thread := Some (PyTuple [PyFloat ''0.05'', PyFloat ''0.9''])\<rparr>)
        (PyTuple [PyFloat ''0.05'', PyFloat ''0.9''])))))\<close>
  by code_simp

subsection \<open>A prepare command that fails\<close>

text \<open>
  Claim C3 says that a worker whose prepare handler raised still holds no engine and still
  rejects the commands of the engine. Evaluated on the prepare message whose payload is the
  pickle of an options dictionary, where the engine's constructor returns and its
  \<^verbatim>\<open>prepare()\<close> raises: the exception is caught and printed, but
  \<^verbatim>\<open>create_ocl_ga\<close> had stored the engine before calling \<^verbatim>\<open>prepare()\<close>, so the
  worker holds the unprepared engine, and the next \<^verbatim>\<open>best\<close> command is not rejected:
  it calls \<^verbatim>\<open>get_the_best\<close> and sends a result.
\<close>

theorem failed_prepare_leaves_engine:
  \<open>pickle_loads unprepared_ext (PyBytes pickled_options)
     = Inr (PyDict [(PyStr ''sample_chromosome'', PyList [PyInt 0, PyInt 1, PyInt 2])])
   \<and> process_data unprepared_ext connected (ascii_bytes prepare_text)
     = Inr (connected\<lparr>ocl_ga := Some 0\<rparr>,
            [Log Verbose ''Worker [{}]: cmd received = {}'' [PyStr ''GPU'', PyStr ''prepare''],
             Print (PyList [PyInt 0, PyInt 1, PyInt 2]),
             GaNew (PyDict [(PyStr ''sample_chromosome'', PyList [PyInt 0, PyInt 1, PyInt 2]),
                            (PyStr ''cl_context'', PyObj ''context''),
                            (PyStr ''generation_callback'', PyObj ''send_and_dump_info'')]),
             GaCall ''prepare'' [],
             PrintExc RuntimeError])
   \<and> process_data unprepared_ext (connected\<lparr>ocl_ga := Some 0\<rparr>)
        (ascii_bytes ''{"command": "best", "data": None}'')
     = Inr (connected\<lparr>ocl_ga := Some 0\<rparr>,
            [Log Verbose ''Worker [{}]: cmd received = {}'' [PyStr ''GPU'', PyStr ''best''],
             GaCall ''get_the_best'' [],
             ClientSend (PyDict [(PyStr ''type'', PyStr ''best''),
                                 (PyStr ''result'', PyStr ''[0, 1, 2]'')])])\<close>
  by code_simp

subsection \<open>The exit command\<close>

text \<open>
  Claim C4 says that the first exit clears the connection handle and that a second exit
  does nothing. Evaluated on the connected worker: after the first exit the handle
  \<^verbatim>\<open>self.client\<close> is still set (only \<^verbatim>\<open>terminate\<close> clears it), and the second
  exit calls \<^verbatim>\<open>shutdown()\<close> and \<^verbatim>\<open>notifyAll()\<close> again.
\<close>

theorem second_exit_repeats_shutdown:
  \<open>process_data stub_ext connected (ascii_bytes ''{"command": "exit", "data": None}'')
     = Inr (connected\<lparr>alive := False\<rparr>,
            [Log Verbose ''Worker [{}]: cmd received = {}'' [PyStr ''GPU'', PyStr ''exit''],
             ClientShutdown, NotifyAll])
   \<and> client (connected\<lparr>alive := False\<rparr>) = Some (Client ''127.0.0.1'' 12345)
   \<and> process_data stub_ext (connected\<lparr>alive := False\<rparr>)
        (ascii_bytes ''{"command": "exit", "data": None}'')
     = Inr (connected\<lparr>alive := False\<rparr>,
            [Log Verbose ''Worker [{}]: cmd received = {}'' [PyStr ''GPU'', PyStr ''exit''],
             ClientShutdown, NotifyAll])\<close>
  by code_simp

subsection \<open>A pool without devices\<close>

text \<open>
  Claim C5, as the code has it. When the enumeration sends the empty list, the
  constructor of the pool returns normally with no worker and no event, \<^verbatim>\<open>is_alive\<close>
  of that pool is true, and the loop of \<^verbatim>\<open>start_ocl_ga_client\<close> is still polling
  after any number of polls: nothing is reported and the process does not exit.
\<close>

theorem no_devices_pool_keeps_polling:
  "OpenCLGAClient_init [] server prt = (\<lparr>workerProcesses = [], client_alive = None\<rparr>, [], None)
   \<and> is_alive \<lparr>workerProcesses = [], client_alive = None\<rparr>
   \<and> start_ocl_ga_client [] server prt polls = None"
  by (simp add: OpenCLGAClient_init_def create_workers_for_devices_def start_workers_def
      is_alive_def start_ocl_ga_client_def polling_empty)

text \<open>
  Claim C5 as it is written, that startup aborts when no device is found, fails for one
  platform without devices: \<^verbatim>\<open>query_devices\<close> sends the empty list, the pool is built
  with no worker and no exception, and after three polls \<^verbatim>\<open>start_ocl_ga_client\<close> has
  neither returned nor raised.
\<close>

theorem no_devices_no_abort_counterexample:
  "query_devices [[] :: string list] = Inr []
   \<and> OpenCLGAClient_init [] ''127.0.0.1'' 12345
       = (\<lparr>workerProcesses = ([] :: unit OpenCLGAWorker list), client_alive = None\<rparr>, [], None)
   \<and> start_ocl_ga_client [] ''127.0.0.1'' 12345 [\<lambda>i. False, \<lambda>i. False, \<lambda>i. False] = None"
  by (simp add: query_devices_def OpenCLGAClient_init_def create_workers_for_devices_def
      start_workers_def is_alive_def start_ocl_ga_client_def reap_def)

subsection \<open>Liveness of the pool\<close>

text \<open>
  Claim C6. \<^verbatim>\<open>is_alive\<close> of the pool is the conjunction of \<^verbatim>\<open>is_alive()\<close> over
  its workers: true exactly when the process of every worker is alive, hence false as soon
  as one of them has ended.
\<close>

theorem is_alive_all_workers:
  "is_alive p = (\<forall>w \<in> set (workerProcesses p). Process_is_alive w)"
  by (simp add: is_alive_def fold_and list_all_iff)

text \<open>
  Claim C6, at a concrete input: the pool of two live workers is alive, and is not once
  the child of the second worker has ended.
\<close>

theorem is_alive_all_workers_witness:
  "is_alive two_workers \<and> \<not> is_alive (reap (\<lambda>i. i = 1) two_workers)"
  using is_alive_all_workers [of two_workers]
    is_alive_all_workers [of "reap (\<lambda>i. i = 1) two_workers"]
  by (simp add: two_workers_def reap_def Process_is_alive_def OpenCLGAWorker_init_def)

subsection \<open>The order of the enumeration\<close>

text \<open>
  Claim C7. When there is a platform, \<^verbatim>\<open>query_devices\<close> sends a list that is a function
  of the platforms alone, strictly increasing in the order platform index first, device
  index second, hence without a repeated pair, and that holds exactly the pairs
  \<open>(p, d)\<close> of a platform \<open>p\<close> and a device \<open>d\<close> of it. (Without a platform,
  \<^verbatim>\<open>platforms[0]\<close> raises and nothing is sent.)
\<close>

theorem query_devices_ordered_distinct:
  assumes "platforms \<noteq> []"
  shows "\<exists>ds. query_devices platforms = Inr ds \<and> sorted_wrt dev_less ds \<and> distinct ds
           \<and> set ds = {(p, d). p < length platforms \<and> d < length (platforms ! p)}"
proof -
  let ?ds = "concat (map (\<lambda>p. map (Pair p) [0..<length (platforms ! p)]) [0..<length platforms])"
  have q: "query_devices platforms = Inr ?ds"
    using assms by (rule query_devices_concat)
  have s: "sorted_wrt dev_less ?ds"
    by (rule sorted_rows) simp
  have m: "set ?ds = {(p, d). p < length platforms \<and> d < length (platforms ! p)}"
    by auto
  from q s m dev_less_distinct [OF s] show ?thesis by blast
qed

text \<open>
  Claim C7, at a concrete input: three platforms with two, no and one device.
\<close>

theorem query_devices_ordered_distinct_witness:
  "query_devices [[''gpu0'', ''gpu1''], [], [''cpu'']] = Inr [(0, 0), (0, 1), (2, 0)]
   \<and> sorted_wrt dev_less [(0, 0), (0, 1), (2, 0)] \<and> distinct [(0, 0), (0, 1), (2::nat, 0::nat)]"
proof -
  have ne: "[[''gpu0'', ''gpu1''], [], [''cpu'']] \<noteq> []" by simp
  have q: "query_devices [[''gpu0'', ''gpu1''], [], [''cpu'']] = Inr [(0, 0), (0, 1), (2, 0)]"
    by code_simp
  from query_devices_ordered_distinct [OF ne] q show ?thesis by simp
qed

subsection \<open>Stopping the pool\<close>

text \<open>
  Claim C8. Whenever \<^verbatim>\<open>stop_workers\<close> returns, the list of workers of the pool is
  empty, whatever it held; and it does return when every worker of the pool had been
  started and has no condition set, as the constructor of the pool leaves them in the
  parent process (\<^verbatim>\<open>notifier\<close> is only set by \<^verbatim>\<open>run\<close>, in the child).
\<close>

theorem stop_workers_clears_pool:
  "(stop_workers p = (p', evs, None) \<longrightarrow> workerProcesses p' = [])
   \<and> (list_all (\<lambda>w. popen w \<noteq> None \<and> notifier w = None) (workerProcesses p)
        \<longrightarrow> (\<exists>evs'. stop_workers p = (p\<lparr>workerProcesses := []\<rparr>, evs', None)))"
  using stop_workers_returned [of p p' evs] stop_workers_started [of p] by blast

text \<open>Claim C8, at a concrete input: the pool of two live workers.\<close>

theorem stop_workers_clears_pool_witness:
  "stop_workers two_workers
     = (two_workers\<lparr>workerProcesses := []\<rparr>,
        [Print (PyStr ''process is alive''), ProcessTerminate 0 0,
         Print (PyStr ''process is alive''), ProcessTerminate 0 1], None)
   \<and> workerProcesses (two_workers\<lparr>workerProcesses := []\<rparr>) = []"
  using stop_workers_clears_pool [of two_workers "two_workers\<lparr>workerProcesses := []\<rparr>"
      "[Print (PyStr ''process is alive''), ProcessTerminate 0 0,
        Print (PyStr ''process is alive''), ProcessTerminate 0 1]"] stop_two_workers
  by simp

subsection \<open>Messages that do not decode\<close>

text \<open>
  Claim C9. The decoding of the message and the reads of its keys \<^verbatim>\<open>command\<close> and
  \<^verbatim>\<open>data\<close> stand before \<^verbatim>\<open>try\<close>. So a message with a byte that is not ASCII, a
  message on which \<^verbatim>\<open>eval\<close> raises, and a message that evaluates to a dictionary
  without one of the two keys each make \<^verbatim>\<open>process_data\<close> raise: the exception leaves
  the handler, and no event, in particular no printed traceback, comes before it.
\<close>

theorem decode_errors_escape:
  "(\<not> list_all (\<lambda>b. b < 128) data \<longrightarrow> process_data x w data = Inl UnicodeDecodeError)
   \<and> (str_ascii data = Inr msg \<and> py_eval x msg = Inl e \<longrightarrow> process_data x w data = Inl e)
   \<and> (str_ascii data = Inr msg \<and> py_eval x msg = Inr (PyDict kvs)
        \<and> (map_of kvs (PyStr ''command'') = None \<or> map_of kvs (PyStr ''data'') = None)
       \<longrightarrow> process_data x w data = Inl KeyError)"
  by (auto simp add: process_data_def str_ascii_def split: option.splits)

text \<open>
  Claim C9, at concrete inputs: a byte 255, a text that is not an expression, and a
  dictionary without the key \<^verbatim>\<open>command\<close>.
\<close>

theorem decode_errors_escape_witness:
  \<open>process_data stub_ext connected [0x7b, 0xff, 0x7d] = Inl UnicodeDecodeError
   \<and> process_data stub_ext connected (ascii_bytes ''{"command": '') = Inl SyntaxError
   \<and> process_data stub_ext connected (ascii_bytes ''{"data": None}'') = Inl KeyError\<close>
proof -
  have 1: "\<not> list_all (\<lambda>b. b < 128) [0x7b, 0xff, 0x7d :: 8 word]" by simp
  have 2: \<open>str_ascii (ascii_bytes ''{"command": '') = Inr ''{"command": ''
           \<and> py_eval stub_ext ''{"command": '' = Inl SyntaxError\<close>
    by (rule conjI, code_simp, simp add: stub_ext_def stub_eval_def stub_messages_def prepare_text_def)
  have 3: \<open>str_ascii (ascii_bytes ''{"data": None}'') = Inr ''{"data": None}''
           \<and> py_eval stub_ext ''{"data": None}'' = Inr (PyDict [(PyStr ''data'', PyNone)])
           \<and> (map_of [(PyStr ''data'', PyNone)] (PyStr ''command'') = None
                \<or> map_of [(PyStr ''data'', PyNone)] (PyStr ''data'') = None)\<close>
    by (intro conjI, code_simp, simp_all add: stub_ext_def stub_eval_def stub_messages_def prepare_text_def)
  have a: "process_data stub_ext connected [0x7b, 0xff, 0x7d] = Inl UnicodeDecodeError"
    by (rule decode_errors_escape [where data = "[0x7b, 0xff, 0x7d]" and x = stub_ext and w = connected,
          THEN conjunct1, rule_format, OF 1])
  have b: \<open>process_data stub_ext connected (ascii_bytes ''{"command": '') = Inl SyntaxError\<close>
    by (rule decode_errors_escape [where x = stub_ext and w = connected and e = SyntaxError,
          THEN conjunct2, THEN conjunct1, rule_format, OF 2])
  have c: \<open>process_data stub_ext connected (ascii_bytes ''{"data": None}'') = Inl KeyError\<close>
    by (rule decode_errors_escape [where x = stub_ext and w = connected,
          THEN conjunct2, THEN conjunct2, rule_format, OF 3])
  from a b c show ?thesis by simp
qed

subsection \<open>Liveness of an empty pool\<close>

text \<open>
  Claim C10. \<^verbatim>\<open>is_alive\<close> of a pool without workers is true; so the pool that
  \<^verbatim>\<open>stop_workers\<close> returns, whose list it has cleared, is reported alive.
\<close>

theorem is_alive_empty_pool:
  "(workerProcesses p = [] \<longrightarrow> is_alive p)
   \<and> (stop_workers q = (q', evs, None) \<longrightarrow> is_alive q')"
  using stop_workers_returned [of q q' evs] by (auto simp add: is_alive_def)

text \<open>
  Claim C10, at concrete inputs: the empty pool, and the pool of two workers after
  \<^verbatim>\<open>stop_workers\<close>.
\<close>

theorem is_alive_empty_pool_witness:
  "is_alive \<lparr>workerProcesses = ([] :: unit OpenCLGAWorker list), client_alive = None\<rparr>
   \<and> stop_workers two_workers
       = (two_workers\<lparr>workerProcesses := []\<rparr>,
          [Print (PyStr ''process is alive''), ProcessTerminate 0 0,
           Print (PyStr ''process is alive''), ProcessTerminate 0 1], None)
   \<and> is_alive (two_workers\<lparr>workerProcesses := []\<rparr>)"
proof -
  have a: "is_alive \<lparr>workerProcesses = ([] :: unit OpenCLGAWorker list), client_alive = None\<rparr>"
    by (rule is_alive_empty_pool [THEN conjunct1, rule_format]) simp
  have b: "is_alive (two_workers\<lparr>workerProcesses := []\<rparr>)"
    by (rule is_alive_empty_pool [THEN conjunct2, rule_format, OF stop_two_workers])
  from a b stop_two_workers show ?thesis by simp
qed

end
